theory Spec2Isabelle
  imports Main
begin

section \<open>The video event sequencer of apl-html (VideoEventSequencer.ts)\<close>

text \<open>
  The sequencer is a closure over three variables (\<open>isProcessing\<close>, \<open>eventsQueue\<close>,
  \<open>currentAnimationFrame\<close>) and over the handler and the logger it was created with. Its
  code runs on the single JavaScript thread: a public method, a frame callback or a promise
  reaction runs to its next \<open>await\<close> without interruption. The model is a step function
  on a state record. The state holds the three variables, the part of the host the code
  talks to (the frame callbacks that were requested and have neither fired nor been
  cancelled, the executor calls whose promise chain has not run yet) and what an observer
  sees (the calls the handler received, the log, the resolutions of the promises returned
  by \<open>processExclusively\<close>, the rejections nobody handles).
\<close>

subsection \<open>Data\<close>

datatype VideoInterface =
    ON_EVENT | PLAY_MEDIA | CONTROL_MEDIA | PLAY | PAUSE | SEEK | REWIND | PREVIOUS | NEXT
  | SET_TRACK | SET_TRACK_PAUSED | SET_AUDIO_TRACK | SET_SOURCE | SET_TRACK_CURRENT_TIME
  | SET_TRACK_INDEX | SET_SCALE | UPDATE_MEDIA_STATE | APPLY_CSS_SHADOW

text \<open>The string value of each member of the enum (\<open>event as string\<close>).\<close>

fun as_string :: "VideoInterface \<Rightarrow> string" where
  "as_string ON_EVENT = ''onEvent''"
| "as_string PLAY_MEDIA = ''playMedia''"
| "as_string CONTROL_MEDIA = ''controlMedia''"
| "as_string PLAY = ''play''"
| "as_string PAUSE = ''pause''"
| "as_string SEEK = ''seek''"
| "as_string REWIND = ''rewind''"
| "as_string PREVIOUS = ''previous''"
| "as_string NEXT = ''next''"
| "as_string SET_TRACK = ''setTrack''"
| "as_string SET_TRACK_PAUSED = ''setTrackPaused''"
| "as_string SET_AUDIO_TRACK = ''setAudioTrack''"
| "as_string SET_SOURCE = ''setSource''"
| "as_string SET_TRACK_CURRENT_TIME = ''setTrackCurrentTime''"
| "as_string SET_TRACK_INDEX = ''setTrackIndex''"
| "as_string SET_SCALE = ''setScale''"
| "as_string UPDATE_MEDIA_STATE = ''updateMediaState''"
| "as_string APPLY_CSS_SHADOW = ''applyCssShadow''"

subsection \<open>Values that are thrown\<close>

text \<open>
  What a handler throws or rejects with is any JavaScript value, and the \<open>catch\<close> reaction
  puts it into a template literal. A value either converts to a string (\<open>Value\<close>, carrying
  that string) or makes the conversion throw a TypeError (\<open>Unprintable\<close>: a Symbol, an
  object with no prototype). The engine raises TypeErrors of its own: for calling a property
  that is missing, for that failed conversion, for reading \<open>info\<close> or \<open>warn\<close> of an
  undefined logger. Their text is the engine's and is a parameter here (\<open>wording\<close>).
\<close>

datatype level = Info | Warn

datatype cause = NotAFunction VideoInterface | NotConvertible | Undefined level

datatype error = Value string | Unprintable | TypeError cause

definition to_string :: "(cause \<Rightarrow> string) \<Rightarrow> error \<Rightarrow> error + string" where
  "to_string w e =
     (case e of
        Value t \<Rightarrow> Inr t
      | Unprintable \<Rightarrow> Inl (TypeError NotConvertible)
      | TypeError c \<Rightarrow> Inr (w c))"

subsection \<open>What the sequencer is created with\<close>

text \<open>
  \<open>videoEventProcessor\<close> has type \<open>any\<close>: an object that may or may not have a property
  of a given name. A method, once called, either throws or returns; what it returns (a
  promise, or a plain value) settles later, and the settlement is an event of the
  environment. The payload \<open>callArgs\<close> is opaque: a type variable.

  \<open>logger\<close> is what \<open>Object.assign(defaultArgs, videoEventSequencerArgs)\<close> leaves:
  the caller's logger, the default one, or \<open>undefined\<close> when the caller passed
  \<open>logger: undefined\<close> (\<open>None\<close>). A call of a logger method returns (\<open>None\<close>) or
  throws.

  \<open>wording\<close> is not an argument of the source: it is the text that the engine gives to
  its own TypeErrors, carried with the arguments so that the \<open>catch\<close> reaction can format
  them.
\<close>

datatype sync_result = Returns | Throws error

type_synonym 'a processor = "string \<Rightarrow> ('a \<Rightarrow> sync_result) option"

type_synonym ILogger = "level \<Rightarrow> string \<Rightarrow> error option"

record 'a VideoEventSequencerArgs =
  videoEventProcessor :: "'a processor"
  logger :: "ILogger option"
  wording :: "cause \<Rightarrow> string"

subsection \<open>The state\<close>

datatype outcome = Fulfilled | Rejected error

datatype status = Pending | Settled outcome

text \<open>
  Who awaits the promise of \<open>processNextEvent\<close>: \<open>processLoop\<close> (no callback), or the
  executor of the promise that \<open>processExclusively\<close> returned (the callback is that
  promise's \<open>resolve\<close>). Returned promises are numbered in the order of the calls.
\<close>

datatype waiter = Loop | Exclusive nat

datatype call = Call (call_id: nat) (call_event: VideoInterface) (call_waiter: waiter)
  (call_status: status)

datatype effect = Warned string | CallbackInvoked | ResolveInvoked

text \<open>
  A rejection that nothing handles, by what threw in the reaction: the logging statement
  of the \<open>catch\<close> reaction, or the completion callback.
\<close>

datatype escape = LoggingThrew error | CallbackThrew error

text \<open>
  A completion callback: what its i-th invocation does, \<open>None\<close> for a normal return,
  \<open>Some e\<close> for throwing \<open>e\<close>.
\<close>

type_synonym PromiseCallback = "nat \<Rightarrow> error option"

record 'a sequencer =
  isProcessing :: bool
  eventsQueue :: "(VideoInterface \<times> 'a) list"
  currentAnimationFrame :: "nat option"
  frames :: "nat list"
  nextFrame :: nat
  inflight :: "call list"
  nextCall :: nat
  nextPromise :: nat
  calls :: "(VideoInterface \<times> 'a) list"
  log :: "(level \<times> string) list"
  resolved :: "nat list"
  unhandled :: "escape list"

text \<open>The state that \<open>createVideoEventSequencer\<close> sets up.\<close>

definition createVideoEventSequencer :: "'a sequencer" where
  "createVideoEventSequencer =
     \<lparr> isProcessing = False, eventsQueue = [], currentAnimationFrame = None,
       frames = [], nextFrame = 0, inflight = [], nextCall = 0, nextPromise = 0,
       calls = [], log = [], resolved = [], unhandled = [] \<rparr>"

subsection \<open>The host's frame clock\<close>

text \<open>
  \<open>requestAnimationFrame\<close> registers the callback (always \<open>processLoop\<close> here) and
  returns a fresh handle; \<open>cancelAnimationFrame\<close> removes the registration of a handle and
  does nothing for a handle that has fired, was cancelled, or is \<open>undefined\<close>.
\<close>

definition requestAnimationFrame :: "'a sequencer \<Rightarrow> nat \<times> 'a sequencer" where
  "requestAnimationFrame s =
     (nextFrame s, s\<lparr>frames := frames s @ [nextFrame s], nextFrame := Suc (nextFrame s)\<rparr>)"

definition cancelAnimationFrame :: "nat option \<Rightarrow> 'a sequencer \<Rightarrow> 'a sequencer" where
  "cancelAnimationFrame handle s =
     (case handle of None \<Rightarrow> s | Some h \<Rightarrow> s\<lparr>frames := removeAll h (frames s)\<rparr>)"

subsection \<open>The single-command executor\<close>

text \<open>
  A statement \<open>logger.info(..)\<close> or \<open>logger.warn(..)\<close>, in the order JavaScript
  evaluates it: the method is read off the logger, which throws when the logger is
  undefined; then the argument is evaluated, which may throw; then the method is called,
  which may throw. The result is the error thrown or the message that was logged.
\<close>

definition logger_call ::
  "'a VideoEventSequencerArgs \<Rightarrow> level \<Rightarrow> error + string \<Rightarrow> error + string" where
  "logger_call args lvl argument =
     (case logger args of
        None \<Rightarrow> Inl (TypeError (Undefined lvl))
      | Some lg \<Rightarrow>
          (case argument of
             Inl e \<Rightarrow> Inl e
           | Inr message \<Rightarrow> (case lg lvl message of Some e \<Rightarrow> Inl e | None \<Rightarrow> Inr message)))"

text \<open>
  \<open>processEvent\<close>, up to its \<open>await\<close>: log the name, look the method up by name and call
  it. An exception anywhere in it (the logging statement, a missing method, a method that
  throws) rejects the promise of \<open>processEvent\<close> at once; otherwise the handler call is
  pending until the environment settles it.
\<close>

definition processEvent ::
  "'a VideoEventSequencerArgs \<Rightarrow> VideoInterface \<Rightarrow> 'a \<Rightarrow> 'a sequencer \<Rightarrow> status \<times> 'a sequencer" where
  "processEvent args event callArgs s =
     (case logger_call args Info (Inr (as_string event)) of
        Inl e \<Rightarrow> (Settled (Rejected e), s)
      | Inr message \<Rightarrow>
          (let s1 = s\<lparr>log := log s @ [(Info, message)]\<rparr> in
           case videoEventProcessor args (as_string event) of
             None \<Rightarrow> (Settled (Rejected (TypeError (NotAFunction event))), s1)
           | Some method \<Rightarrow>
               (let s2 = s1\<lparr>calls := calls s1 @ [(event, callArgs)]\<rparr> in
                case method callArgs of
                  Throws e \<Rightarrow> (Settled (Rejected e), s2)
                | Returns \<Rightarrow> (Pending, s2))))"

text \<open>
  \<open>processNextEvent\<close>, the synchronous part: the promise executor calls \<open>processEvent\<close> and
  attaches the reactions; the call is in flight until they have run.
\<close>

definition processNextEvent ::
  "'a VideoEventSequencerArgs \<Rightarrow> VideoInterface \<Rightarrow> 'a \<Rightarrow> waiter \<Rightarrow> 'a sequencer \<Rightarrow> 'a sequencer" where
  "processNextEvent args event callArgs w s =
     (let (st, s1) = processEvent args event callArgs s in
      s1\<lparr>inflight := inflight s1 @ [Call (nextCall s1) event w st],
         nextCall := Suc (nextCall s1)\<rparr>)"

text \<open>
  \<open>ensureResolve\<close>: \<open>try { if (callback) callback(); } finally { resolve(); }\<close>. The result
  is what was done, in order, and the error that leaves the function, if any: there is no
  \<open>catch\<close>, so what the callback throws is thrown again after \<open>resolve()\<close>.
\<close>

definition ensureResolve :: "PromiseCallback option \<Rightarrow> nat \<Rightarrow> effect list \<times> error option" where
  "ensureResolve callback i =
     (case callback of
        None \<Rightarrow> ([ResolveInvoked], None)
      | Some cb \<Rightarrow> ([CallbackInvoked, ResolveInvoked], cb i))"

text \<open>
  The logging statement of the \<open>catch\<close> reaction,
  \<open>logger.warn(`error processing ${event}: ${error}`)\<close>: the conversion of \<open>error\<close>
  may throw, and so may the logger.
\<close>

definition warning ::
  "'a VideoEventSequencerArgs \<Rightarrow> VideoInterface \<Rightarrow> error \<Rightarrow> error + string" where
  "warning args event error =
     logger_call args Warn
       (case to_string (wording args) error of
          Inl e \<Rightarrow> Inl e
        | Inr text \<Rightarrow> Inr (''error processing '' @ as_string event @ '': '' @ text))"

text \<open>
  The \<open>catch\<close> reaction, \<open>(error) => { logger.warn(..); ensureResolve(resolve, callback) }\<close>:
  when the logging statement throws, \<open>ensureResolve\<close> is not reached, so neither the
  callback nor \<open>resolve()\<close> runs. \<open>i\<close> numbers the invocation of the callback.
\<close>

definition catch_reaction ::
  "'a VideoEventSequencerArgs \<Rightarrow> VideoInterface \<Rightarrow> PromiseCallback option \<Rightarrow> nat
     \<Rightarrow> error \<Rightarrow> effect list \<times> escape option" where
  "catch_reaction args event callback i error =
     (case warning args event error of
        Inl e \<Rightarrow> ([], Some (LoggingThrew e))
      | Inr message \<Rightarrow>
          (let (fx, r) = ensureResolve callback i
           in (Warned message # fx, map_option CallbackThrew r)))"

text \<open>
  The reactions of \<open>processNextEvent\<close>: \<open>.then(() => ensureResolve(..)).catch(..)\<close>. The
  \<open>catch\<close> follows the \<open>then\<close>, so it also receives what the first reaction throws. The
  second component is the rejection of the promise that \<open>.catch\<close> returns, which nothing
  observes.
\<close>

definition reactions ::
  "'a VideoEventSequencerArgs \<Rightarrow> VideoInterface \<Rightarrow> PromiseCallback option
     \<Rightarrow> outcome \<Rightarrow> effect list \<times> escape option" where
  "reactions args event callback out =
     (case out of
        Fulfilled \<Rightarrow>
          (case ensureResolve callback 0 of
             (fx, None) \<Rightarrow> (fx, None)
           | (fx, Some error) \<Rightarrow>
               (let (fx', r) = catch_reaction args event callback 1 error
                in (fx @ fx', r)))
      | Rejected error \<Rightarrow> catch_reaction args event callback 0 error)"

text \<open>
  The promise of \<open>processNextEvent\<close> as JavaScript has it: \<open>resolve()\<close> settles a pending
  promise and does nothing to a settled one. \<open>settlements\<close> counts the changes of state
  that a run of effects makes to a pending promise.
\<close>

fun settlements :: "bool \<Rightarrow> effect list \<Rightarrow> nat" where
  "settlements settled [] = 0"
| "settlements settled (ResolveInvoked # fx) =
     (if settled then settlements True fx else Suc (settlements True fx))"
| "settlements settled (_ # fx) = settlements settled fx"

text \<open>
  The \<open>resolve\<close> function that the engine hands to the executor of promise \<open>p\<close>: it returns
  whenever it is called (a call after the first does nothing, see \<open>settlements\<close>).
\<close>

definition resolve_of :: "nat \<Rightarrow> PromiseCallback" where
  "resolve_of p i = None"

text \<open>
  The callback of a waiter: \<open>processLoop\<close> passes none, \<open>processExclusively\<close> passes the
  \<open>resolve\<close> of the promise it returns.
\<close>

definition callback_of :: "waiter \<Rightarrow> PromiseCallback option" where
  "callback_of w = (case w of Loop \<Rightarrow> None | Exclusive p \<Rightarrow> Some (resolve_of p))"

subsection \<open>The loop driver\<close>

text \<open>\<open>processLoop\<close> up to its \<open>await\<close>.\<close>

definition processLoop :: "'a VideoEventSequencerArgs \<Rightarrow> 'a sequencer \<Rightarrow> 'a sequencer" where
  "processLoop args s =
     (case eventsQueue s of
        [] \<Rightarrow> s\<lparr>isProcessing := False\<rparr>
      | (event, callArgs) # rest \<Rightarrow>
          processNextEvent args event callArgs Loop (s\<lparr>eventsQueue := rest\<rparr>))"

text \<open>\<open>processLoop\<close> after its \<open>await\<close>: \<open>currentAnimationFrame = requestAnimationFrame(processLoop)\<close>.\<close>

definition scheduleNext :: "'a sequencer \<Rightarrow> 'a sequencer" where
  "scheduleNext s =
     (let (h, s1) = requestAnimationFrame s in s1\<lparr>currentAnimationFrame := Some h\<rparr>)"

definition ensureProcessing :: "'a VideoEventSequencerArgs \<Rightarrow> 'a sequencer \<Rightarrow> 'a sequencer" where
  "ensureProcessing args s =
     (if \<not> isProcessing s then processLoop args (s\<lparr>isProcessing := True\<rparr>) else s)"

subsection \<open>The public methods\<close>

definition enqueueForProcessing ::
  "'a VideoEventSequencerArgs \<Rightarrow> VideoInterface \<Rightarrow> 'a \<Rightarrow> 'a sequencer \<Rightarrow> 'a sequencer" where
  "enqueueForProcessing args event callArgs s =
     ensureProcessing args (s\<lparr>eventsQueue := eventsQueue s @ [(event, callArgs)]\<rparr>)"

text \<open>\<open>destroy\<close>: the three assignments that \<open>processExclusively\<close> starts with as well.\<close>

definition destroy :: "'a sequencer \<Rightarrow> 'a sequencer" where
  "destroy s =
     (let s1 = s\<lparr>eventsQueue := []\<rparr>;
          s2 = cancelAnimationFrame (currentAnimationFrame s1) s1
      in s2\<lparr>isProcessing := False\<rparr>)"

definition processExclusively ::
  "'a VideoEventSequencerArgs \<Rightarrow> VideoInterface \<Rightarrow> 'a \<Rightarrow> 'a sequencer \<Rightarrow> 'a sequencer" where
  "processExclusively args event callArgs s =
     (let s1 = s\<lparr>eventsQueue := []\<rparr>;
          s2 = cancelAnimationFrame (currentAnimationFrame s1) s1;
          s3 = s2\<lparr>isProcessing := False\<rparr>;
          p = nextPromise s3
      in processNextEvent args event callArgs (Exclusive p) (s3\<lparr>nextPromise := Suc p\<rparr>))"

subsection \<open>Settlement of a call and the reactions that follow\<close>

definition lookup_call :: "nat \<Rightarrow> 'a sequencer \<Rightarrow> call option" where
  "lookup_call cid s = find (\<lambda>c. call_id c = cid) (inflight s)"

definition settle :: "nat \<Rightarrow> outcome \<Rightarrow> 'a sequencer \<Rightarrow> 'a sequencer" where
  "settle cid out s =
     s\<lparr>inflight := map (\<lambda>c. if call_id c = cid
                              then Call (call_id c) (call_event c) (call_waiter c) (Settled out)
                              else c) (inflight s)\<rparr>"

text \<open>
  The reactions of a settled call run; then whoever awaits the promise of
  \<open>processNextEvent\<close> goes on, if that promise was resolved: \<open>processLoop\<close> requests the
  next frame, the executor of \<open>processExclusively\<close> has nothing left to do. If the promise
  was not resolved, the waiter never goes on.
\<close>

definition resume ::
  "'a VideoEventSequencerArgs \<Rightarrow> call \<Rightarrow> outcome \<Rightarrow> 'a sequencer \<Rightarrow> 'a sequencer" where
  "resume args c out s =
     (let (fx, escaped) = reactions args (call_event c) (callback_of (call_waiter c)) out;
          s1 = s\<lparr>inflight := filter (\<lambda>d. call_id d \<noteq> call_id c) (inflight s),
                 log := log s @ concat (map (\<lambda>f. case f of Warned m \<Rightarrow> [(Warn, m)] | _ \<Rightarrow> []) fx),
                 resolved := resolved s @
                   (case call_waiter c of
                      Loop \<Rightarrow> []
                    | Exclusive p \<Rightarrow> replicate (length (filter (\<lambda>f. f = CallbackInvoked) fx)) p),
                 unhandled := unhandled s @ (case escaped of None \<Rightarrow> [] | Some x \<Rightarrow> [x])\<rparr>
      in if settlements False fx = 0 then s1
         else (case call_waiter c of Loop \<Rightarrow> scheduleNext s1 | Exclusive p \<Rightarrow> s1))"

subsection \<open>Events and runs\<close>

text \<open>
  What can happen to a sequencer: a call of one of its three methods, the host firing a
  requested frame, the settlement of a pending handler call, and the promise reactions of a
  settled call. An event of the environment that cannot happen in a state (a frame that is
  not scheduled, a call that is not in flight) has no successor. The reactions of a settled
  call and the resumption of its waiter are one event: the reactions touch none of the
  three variables, so a method call that falls between them acts on the variables as one
  that comes just before them. Events may interleave more freely than the host's job queue
  allows; what holds of every trace here holds of every real one.
\<close>

datatype 'a event =
    EnqueueForProcessing VideoInterface 'a
  | ProcessExclusively VideoInterface 'a
  | Destroy
  | Tick nat
  | Settle nat outcome
  | Continue nat

fun step :: "'a VideoEventSequencerArgs \<Rightarrow> 'a event \<Rightarrow> 'a sequencer \<Rightarrow> 'a sequencer option" where
  "step args (EnqueueForProcessing event callArgs) s =
     Some (enqueueForProcessing args event callArgs s)"
| "step args (ProcessExclusively event callArgs) s =
     Some (processExclusively args event callArgs s)"
| "step args Destroy s = Some (destroy s)"
| "step args (Tick h) s =
     (if h \<in> set (frames s)
      then Some (processLoop args (s\<lparr>frames := removeAll h (frames s)\<rparr>))
      else None)"
| "step args (Settle cid out) s =
     (case lookup_call cid s of
        None \<Rightarrow> None
      | Some c \<Rightarrow> (case call_status c of Pending \<Rightarrow> Some (settle cid out s) | Settled _ \<Rightarrow> None))"
| "step args (Continue cid) s =
     (case lookup_call cid s of
        None \<Rightarrow> None
      | Some c \<Rightarrow>
          (case call_status c of Pending \<Rightarrow> None | Settled out \<Rightarrow> Some (resume args c out s)))"

fun run :: "'a VideoEventSequencerArgs \<Rightarrow> 'a event list \<Rightarrow> 'a sequencer \<Rightarrow> 'a sequencer option" where
  "run args [] s = Some s"
| "run args (e # es) s = (case step args e s of None \<Rightarrow> None | Some s' \<Rightarrow> run args es s')"

subsection \<open>Vocabulary of the properties\<close>

text \<open>
  The dispatch of a command reaches the handler when the logging of its name returns and
  the handler has a method of that name; the handler accepts the command when that method
  returns instead of throwing.
\<close>

definition dispatches :: "'a VideoEventSequencerArgs \<Rightarrow> VideoInterface \<times> 'a \<Rightarrow> bool" where
  "dispatches args c =
     (case logger_call args Info (Inr (as_string (fst c))) of
        Inl e \<Rightarrow> False
      | Inr message \<Rightarrow>
          (case videoEventProcessor args (as_string (fst c)) of None \<Rightarrow> False | Some m \<Rightarrow> True))"

definition accepts :: "'a VideoEventSequencerArgs \<Rightarrow> VideoInterface \<times> 'a \<Rightarrow> bool" where
  "accepts args c =
     (case logger_call args Info (Inr (as_string (fst c))) of
        Inl e \<Rightarrow> False
      | Inr message \<Rightarrow>
          (case videoEventProcessor args (as_string (fst c)) of
             None \<Rightarrow> False
           | Some m \<Rightarrow> m (snd c) = Returns))"

text \<open>
  The status in which a dispatch leaves the new call; it does not depend on the state.
\<close>

definition dispatch_status :: "'a VideoEventSequencerArgs \<Rightarrow> VideoInterface \<Rightarrow> 'a \<Rightarrow> status" where
  "dispatch_status args event callArgs =
     fst (processEvent args event callArgs createVideoEventSequencer)"

text \<open>
  An outcome of a handler call that the reactions survive: the call was fulfilled, or the
  logging statement of the \<open>catch\<close> reaction returns for what it was rejected with.
\<close>

definition survives :: "'a VideoEventSequencerArgs \<Rightarrow> VideoInterface \<Rightarrow> outcome \<Rightarrow> bool" where
  "survives args event out =
     (case out of
        Fulfilled \<Rightarrow> True
      | Rejected e \<Rightarrow> (case warning args event e of Inl x \<Rightarrow> False | Inr message \<Rightarrow> True))"



text \<open>The commands that a trace hands to either producer method, in order.\<close>

fun submitted :: "'a event list \<Rightarrow> (VideoInterface \<times> 'a) list" where
  "submitted [] = []"
| "submitted (EnqueueForProcessing event callArgs # es) = (event, callArgs) # submitted es"
| "submitted (ProcessExclusively event callArgs # es) = (event, callArgs) # submitted es"
| "submitted (_ # es) = submitted es"

fun preempts :: "'a event \<Rightarrow> bool" where
  "preempts (ProcessExclusively _ _) = True"
| "preempts Destroy = True"
| "preempts _ = False"

fun produces :: "'a event \<Rightarrow> bool" where
  "produces (EnqueueForProcessing _ _) = True"
| "produces (ProcessExclusively _ _) = True"
| "produces _ = False"

text \<open>A trace on the normal path has no preempting call; a quiet trace has no producer call.\<close>

fun normal_path :: "'a event list \<Rightarrow> bool" where
  "normal_path [] = True"
| "normal_path (e # es) = (\<not> preempts e \<and> normal_path es)"

fun quiet :: "'a event list \<Rightarrow> bool" where
  "quiet [] = True"
| "quiet (e # es) = (\<not> produces e \<and> quiet es)"

text \<open>The handler calls that have not settled.\<close>

definition pending :: "'a sequencer \<Rightarrow> call list" where
  "pending s = filter (\<lambda>c. call_status c = Pending) (inflight s)"


text \<open>
  The shapes of a sequencer that only \<open>enqueueForProcessing\<close> has driven: no command in
  flight and no frame requested (idle with an empty queue, or with the flag left on by
  reactions that did not resume the loop), or active with either one command in flight or
  one frame requested, whose handle \<open>currentAnimationFrame\<close> holds.
\<close>

definition normal :: "'a sequencer \<Rightarrow> bool" where
  "normal s =
     (case (inflight s, frames s) of
        ([], []) \<Rightarrow> isProcessing s \<or> eventsQueue s = []
      | ([c], []) \<Rightarrow> isProcessing s \<and> call_waiter c = Loop
      | ([], [h]) \<Rightarrow> isProcessing s \<and> currentAnimationFrame s = Some h
      | _ \<Rightarrow> False)"



text \<open>
  A handler, a logger and settlements for the concrete runs below. The handler has every
  method, and each returns a promise; the logger returns from every call; \<open>v8\<close> is the
  text of the TypeErrors in V8.
\<close>

fun always_returns :: "'a \<Rightarrow> sync_result" where
  "always_returns callArgs = Returns"

fun every_method :: "'a processor" where
  "every_method name = Some always_returns"

fun plain_logger :: ILogger where
  "plain_logger lvl message = None"

fun v8 :: "cause \<Rightarrow> string" where
  "v8 (NotAFunction event) = ''TypeError: videoEventProcessor[event] is not a function''"
| "v8 NotConvertible = ''TypeError: Cannot convert a Symbol value to a string''"
| "v8 (Undefined Info) = ''TypeError: Cannot read properties of undefined (reading 'info')''"
| "v8 (Undefined Warn) = ''TypeError: Cannot read properties of undefined (reading 'warn')''"

definition complete_handler :: "'a VideoEventSequencerArgs" where
  "complete_handler =
     \<lparr>videoEventProcessor = every_method, logger = Some plain_logger, wording = v8\<rparr>"

definition no_logger :: "'a VideoEventSequencerArgs" where
  "no_logger = \<lparr>videoEventProcessor = every_method, logger = None, wording = v8\<rparr>"



text \<open>States of the concrete runs below.\<close>

definition backlog :: "nat sequencer" where
  "backlog = \<lparr>isProcessing = True, eventsQueue = [(PAUSE, 2), (SEEK, 3)],
     currentAnimationFrame = None, frames = [], nextFrame = 0,
     inflight = [Call 0 PLAY Loop Pending], nextCall = 1, nextPromise = 0,
     calls = [(PLAY, 1)], log = [(Info, ''play'')], resolved = [], unhandled = []\<rparr>"

definition scheduled :: "nat sequencer" where
  "scheduled = \<lparr>isProcessing = True, eventsQueue = [(PAUSE, 2), (SEEK, 3)],
     currentAnimationFrame = Some 0, frames = [0], nextFrame = 1,
     inflight = [], nextCall = 1, nextPromise = 0, calls = [(PLAY, 1)],
     log = [(Info, ''play'')], resolved = [], unhandled = []\<rparr>"

definition two_frames :: "nat sequencer" where
  "two_frames = \<lparr>isProcessing = True, eventsQueue = [(NEXT, 4)],
     currentAnimationFrame = Some 1, frames = [0, 1], nextFrame = 2,
     inflight = [Call 1 PAUSE (Exclusive 0) Pending], nextCall = 3, nextPromise = 1,
     calls = [(PLAY, 1), (PAUSE, 2), (SEEK, 3)],
     log = [(Info, ''play''), (Info, ''pause''), (Info, ''seek'')],
     resolved = [], unhandled = []\<rparr>"

text \<open>
  The sequencer after \<open>processExclusively(play)\<close> on a new sequencer, when the handler's
  promise was rejected with a value that has no string conversion and the reactions have
  run: nothing is in flight, promise 0 is not resolved.
\<close>

definition abandoned :: "nat sequencer" where
  "abandoned = \<lparr>isProcessing = False, eventsQueue = [], currentAnimationFrame = None,
     frames = [], nextFrame = 0, inflight = [], nextCall = 1, nextPromise = 1,
     calls = [(PLAY, 1)], log = [(Info, ''play'')], resolved = [],
     unhandled = [LoggingThrew (TypeError NotConvertible)]\<rparr>"

text \<open>
  The sequencer after \<open>enqueueForProcessing(play)\<close> and \<open>enqueueForProcessing(pause)\<close> on a
  new sequencer, when the promise of \<open>play\<close> was rejected with such a value and the
  reactions have run: the flag is on, \<open>pause\<close> is queued, nothing is in flight and no frame
  is requested.
\<close>

definition stalled :: "nat sequencer" where
  "stalled = \<lparr>isProcessing = True, eventsQueue = [(PAUSE, 2)], currentAnimationFrame = None,
     frames = [], nextFrame = 0, inflight = [], nextCall = 1, nextPromise = 0,
     calls = [(PLAY, 1)], log = [(Info, ''play'')], resolved = [],
     unhandled = [LoggingThrew (TypeError NotConvertible)]\<rparr>"

section \<open>Properties\<close>

lemmas eval_simps = createVideoEventSequencer_def enqueueForProcessing_def ensureProcessing_def
  processLoop_def processNextEvent_def processEvent_def processExclusively_def destroy_def
  cancelAnimationFrame_def requestAnimationFrame_def scheduleNext_def lookup_call_def settle_def
  resume_def reactions_def catch_reaction_def warning_def logger_call_def to_string_def
  ensureResolve_def callback_of_def resolve_of_def complete_handler_def no_logger_def dispatches_def
  accepts_def survives_def pending_def normal_def dispatch_status_def Let_def backlog_def
  scheduled_def two_frames_def abandoned_def stalled_def

subsection \<open>What each operation does to each variable\<close>

lemma processNextEvent_fields:
  "isProcessing (processNextEvent args ev a w s) = isProcessing s"
  "eventsQueue (processNextEvent args ev a w s) = eventsQueue s"
  "currentAnimationFrame (processNextEvent args ev a w s) = currentAnimationFrame s"
  "frames (processNextEvent args ev a w s) = frames s"
  "nextFrame (processNextEvent args ev a w s) = nextFrame s"
  "nextCall (processNextEvent args ev a w s) = Suc (nextCall s)"
  "nextPromise (processNextEvent args ev a w s) = nextPromise s"
  "resolved (processNextEvent args ev a w s) = resolved s"
  "unhandled (processNextEvent args ev a w s) = unhandled s"
  by (simp_all add: processNextEvent_def processEvent_def Let_def
      split: option.splits sync_result.splits sum.splits)

lemma processNextEvent_calls:
  "calls (processNextEvent args ev a w s) = calls s @ filter (dispatches args) [(ev, a)]"
  by (simp add: processNextEvent_def processEvent_def dispatches_def Let_def
      split: option.splits sync_result.splits sum.splits)

lemma processNextEvent_inflight:
  "inflight (processNextEvent args ev a w s)
     = inflight s @ [Call (nextCall s) ev w (dispatch_status args ev a)]"
  by (simp add: processNextEvent_def processEvent_def dispatch_status_def Let_def
      split: option.splits sync_result.splits sum.splits)

lemma dispatch_status_accepts: "accepts args (ev, a) \<Longrightarrow> dispatch_status args ev a = Pending"
  by (simp add: accepts_def processEvent_def dispatch_status_def Let_def
      split: option.splits sum.splits sync_result.splits)

lemma accepts_dispatches: "accepts args c \<Longrightarrow> dispatches args c"
  by (simp add: accepts_def dispatches_def split: option.splits sum.splits)

lemma processLoop_fields:
  "frames (processLoop args s) = frames s"
  "currentAnimationFrame (processLoop args s) = currentAnimationFrame s"
  "nextFrame (processLoop args s) = nextFrame s"
  "resolved (processLoop args s) = resolved s"
  "unhandled (processLoop args s) = unhandled s"
  "nextPromise (processLoop args s) = nextPromise s"
  by (simp_all add: processLoop_def processNextEvent_fields split: list.splits)

lemma reactions_None:
  "reactions args ev None out =
     (case out of
        Fulfilled \<Rightarrow> ([ResolveInvoked], None)
      | Rejected e \<Rightarrow>
          (case warning args ev e of
             Inl x \<Rightarrow> ([], Some (LoggingThrew x))
           | Inr m \<Rightarrow> ([Warned m, ResolveInvoked], None)))"
  by (simp add: reactions_def catch_reaction_def ensureResolve_def
      split: outcome.splits sum.splits)

lemma reactions_resolve:
  "reactions args ev (Some (resolve_of p)) out =
     (case out of
        Fulfilled \<Rightarrow> ([CallbackInvoked, ResolveInvoked], None)
      | Rejected e \<Rightarrow>
          (case warning args ev e of
             Inl x \<Rightarrow> ([], Some (LoggingThrew x))
           | Inr m \<Rightarrow> ([Warned m, CallbackInvoked, ResolveInvoked], None)))"
  by (simp add: reactions_def catch_reaction_def ensureResolve_def resolve_of_def
      split: outcome.splits sum.splits)

lemma resume_fields:
  "isProcessing (resume args c out s) = isProcessing s"
  "eventsQueue (resume args c out s) = eventsQueue s"
  "calls (resume args c out s) = calls s"
  "nextCall (resume args c out s) = nextCall s"
  "nextPromise (resume args c out s) = nextPromise s"
  "inflight (resume args c out s) = filter (\<lambda>d. call_id d \<noteq> call_id c) (inflight s)"
  by (simp_all add: resume_def reactions_None reactions_resolve callback_of_def scheduleNext_def
        requestAnimationFrame_def split: waiter.splits outcome.splits sum.splits)

lemma resume_frames:
  "frames (resume args c out s) =
     (if call_waiter c = Loop \<and> survives args (call_event c) out
      then frames s @ [nextFrame s] else frames s)"
  "currentAnimationFrame (resume args c out s) =
     (if call_waiter c = Loop \<and> survives args (call_event c) out
      then Some (nextFrame s) else currentAnimationFrame s)"
  "nextFrame (resume args c out s) =
     (if call_waiter c = Loop \<and> survives args (call_event c) out
      then Suc (nextFrame s) else nextFrame s)"
  by (simp_all add: resume_def reactions_None reactions_resolve callback_of_def scheduleNext_def
        survives_def requestAnimationFrame_def split: waiter.splits outcome.splits sum.splits)

lemma resume_observed:
  "log (resume args c out s) =
     log s @ (case out of
                Fulfilled \<Rightarrow> []
              | Rejected e \<Rightarrow>
                  (case warning args (call_event c) e of Inl x \<Rightarrow> [] | Inr m \<Rightarrow> [(Warn, m)]))"
  "unhandled (resume args c out s) =
     unhandled s @ (case out of
                      Fulfilled \<Rightarrow> []
                    | Rejected e \<Rightarrow>
                        (case warning args (call_event c) e of
                           Inl x \<Rightarrow> [LoggingThrew x] | Inr m \<Rightarrow> []))"
  "resolved (resume args c out s) =
     resolved s @ (case call_waiter c of
                     Loop \<Rightarrow> []
                   | Exclusive p \<Rightarrow> if survives args (call_event c) out then [p] else [])"
  by (simp_all add: resume_def reactions_None reactions_resolve callback_of_def scheduleNext_def
        survives_def requestAnimationFrame_def split: waiter.splits outcome.splits sum.splits)


subsection \<open>Idempotence of destroy\<close>

lemma destroy_twice: "destroy (destroy s) = destroy s"
  by (simp add: destroy_def cancelAnimationFrame_def Let_def split: option.splits)

lemma destroy_funpow: "(destroy ^^ Suc n) s = destroy s"
  by (induction n) (simp_all add: destroy_twice)

lemma destroy_idle:
  "eventsQueue s = [] \<Longrightarrow> \<not> isProcessing s \<Longrightarrow> frames s = [] \<Longrightarrow> destroy s = s"
  by (simp add: destroy_def cancelAnimationFrame_def Let_def split: option.splits)

text \<open>
  Claim C9. \<open>destroy\<close> always returns (it has no failing branch); calling it any number of
  times in a row gives the state of a single call, in which the queue is empty and the
  cycle flag is off; and on an idle sequencer (empty queue, flag off, no frame requested)
  it changes nothing.
\<close>

theorem destroy_idempotent:
  "step args Destroy s = Some (destroy s)
   \<and> (destroy ^^ Suc n) s = destroy s
   \<and> eventsQueue (destroy s) = [] \<and> \<not> isProcessing (destroy s)
   \<and> (eventsQueue s = [] \<and> \<not> isProcessing s \<and> frames s = [] \<longrightarrow> destroy s = s)"
  using destroy_funpow[of n s] destroy_idle[of s]
  by (simp add: destroy_def cancelAnimationFrame_def Let_def split: option.splits)

theorem destroy_idempotent_witness:
  "eventsQueue (createVideoEventSequencer :: nat sequencer) = []
   \<and> \<not> isProcessing (createVideoEventSequencer :: nat sequencer)
   \<and> frames (createVideoEventSequencer :: nat sequencer) = []
   \<and> destroy (createVideoEventSequencer :: nat sequencer) = createVideoEventSequencer
   \<and> (destroy ^^ 3) (enqueueForProcessing complete_handler PLAY 7 createVideoEventSequencer)
       = destroy (enqueueForProcessing complete_handler PLAY (7::nat) createVideoEventSequencer)"
  using destroy_idempotent[of complete_handler "createVideoEventSequencer :: nat sequencer" 0]
        destroy_idempotent[of complete_handler
          "enqueueForProcessing complete_handler PLAY (7::nat) createVideoEventSequencer" 2]
  by (simp add: createVideoEventSequencer_def numeral_3_eq_3)

subsection \<open>Order of dispatch\<close>





subsection \<open>A cooperative environment drains the queue\<close>







subsection \<open>One call at a time on the normal path\<close>

lemma normal_cases:
  "normal s \<longleftrightarrow>
     (inflight s = [] \<and> frames s = [] \<and> (isProcessing s \<or> eventsQueue s = []))
   \<or> (\<exists>c. inflight s = [c] \<and> frames s = [] \<and> isProcessing s \<and> call_waiter c = Loop)
   \<or> (\<exists>h. inflight s = [] \<and> frames s = [h] \<and> isProcessing s \<and> currentAnimationFrame s = Some h)"
  by (auto simp: normal_def split: list.splits)

lemma normal_init: "normal createVideoEventSequencer"
  by (simp add: normal_def createVideoEventSequencer_def)

lemma step_normal:
  assumes "normal s" and "\<not> preempts e" and "step args e s = Some s'"
  shows "normal s'"
proof (cases e)
  case (EnqueueForProcessing ev a)
  show ?thesis
  proof (cases "isProcessing s")
    case True
    then have "s' = s\<lparr>eventsQueue := eventsQueue s @ [(ev, a)]\<rparr>"
      using assms(3) EnqueueForProcessing
      by (simp add: enqueueForProcessing_def ensureProcessing_def)
    then show ?thesis
      using assms(1) True by (auto simp: normal_cases)
  next
    case False
    then have idle: "inflight s = []" "frames s = []" "eventsQueue s = []"
      using assms(1) by (auto simp: normal_cases)
    have "s' = processNextEvent args ev a Loop (s\<lparr>isProcessing := True, eventsQueue := []\<rparr>)"
      using assms(3) EnqueueForProcessing False idle
      by (simp add: enqueueForProcessing_def ensureProcessing_def processLoop_def)
    then show ?thesis
      using idle
      by (simp add: normal_cases processNextEvent_fields processNextEvent_inflight)
  qed
next
  case (Tick h)
  then have h: "h \<in> set (frames s)"
    and s': "s' = processLoop args (s\<lparr>frames := removeAll h (frames s)\<rparr>)"
    using assms(3) by (auto split: if_splits)
  from h assms(1) have sh: "inflight s = []" "frames s = [h]" "isProcessing s"
    by (auto simp: normal_cases)
  show ?thesis
  proof (cases "eventsQueue s")
    case Nil
    then show ?thesis
      using sh unfolding s' by (simp add: normal_cases processLoop_def)
  next
    case (Cons c q)
    obtain ev a where "c = (ev, a)" by (cases c)
    then show ?thesis
      using sh Cons unfolding s'
      by (simp add: normal_cases processLoop_def processNextEvent_fields
          processNextEvent_inflight)
  qed
next
  case (Settle cid out)
  then obtain c where c: "lookup_call cid s = Some c" and s': "s' = settle cid out s"
    using assms(3) by (auto split: option.splits status.splits)
  from c have "inflight s \<noteq> []" by (auto simp: lookup_call_def)
  with assms(1) obtain d where sh: "inflight s = [d]" "frames s = []" "isProcessing s"
      "call_waiter d = Loop"
    by (auto simp: normal_cases)
  show ?thesis
    using sh unfolding s' by (simp add: normal_cases settle_def)
next
  case (Continue cid)
  then obtain c out where c: "lookup_call cid s = Some c" and s': "s' = resume args c out s"
    using assms(3) by (auto split: option.splits status.splits)
  from c have "inflight s \<noteq> []" by (auto simp: lookup_call_def)
  with assms(1) obtain d where sh: "inflight s = [d]" "frames s = []" "isProcessing s"
      "call_waiter d = Loop"
    by (auto simp: normal_cases)
  from c sh(1) have "d = c" by (simp add: lookup_call_def split: if_splits)
  then show ?thesis
    using sh unfolding s' by (simp add: normal_cases resume_fields resume_frames)
qed (use assms in auto)

lemma run_normal:
  "normal s \<Longrightarrow> normal_path tr \<Longrightarrow> run args tr s = Some s' \<Longrightarrow> normal s'"
proof (induction tr arbitrary: s)
  case Nil
  then show ?case by simp
next
  case (Cons e tr)
  then show ?case by (auto split: option.splits dest: step_normal)
qed

text \<open>
  Claim C1, as amended. A sequencer that has been driven since its creation by
  \<open>enqueueForProcessing\<close> calls, frames and settlements only (no \<open>processExclusively\<close>, no
  \<open>destroy\<close>) has at most one executor call in flight, hence at most one handler call
  pending, and has no frame requested while a call is in flight: the next frame is
  requested only after the promise of the current command's executor has settled.
\<close>

theorem normal_path_one_call_in_flight:
  assumes "normal_path tr" and "run args tr createVideoEventSequencer = Some s"
  shows "length (inflight s) \<le> 1 \<and> length (pending s) \<le> 1 \<and> (frames s = [] \<or> inflight s = [])"
proof -
  have "normal s" using run_normal[OF normal_init assms] .
  then show ?thesis by (auto simp: normal_cases pending_def)
qed

theorem normal_path_one_call_in_flight_witness:
  "normal_path [EnqueueForProcessing PLAY 1, EnqueueForProcessing PAUSE 2,
          Settle 0 (Rejected (Value ''stalled'')), Continue 0, Tick 0 :: nat event]
   \<and> run complete_handler
         [EnqueueForProcessing PLAY 1, EnqueueForProcessing PAUSE 2,
          Settle 0 (Rejected (Value ''stalled'')), Continue 0, Tick 0] createVideoEventSequencer
       = Some \<lparr>isProcessing = True, eventsQueue = [],
            currentAnimationFrame = Some 0, frames = [], nextFrame = 1,
            inflight = [Call 1 PAUSE Loop Pending], nextCall = 2, nextPromise = 0,
            calls = [(PLAY, 1::nat), (PAUSE, 2)],
            log = [(Info, ''play''), (Warn, ''error processing play: stalled''), (Info, ''pause'')],
            resolved = [], unhandled = []\<rparr>
   \<and> length [Call 1 PAUSE Loop Pending] \<le> 1"
  using normal_path_one_call_in_flight[of "[EnqueueForProcessing PLAY 1, EnqueueForProcessing PAUSE 2,
          Settle 0 (Rejected (Value ''stalled'')), Continue 0, Tick 0]"
       complete_handler
       "\<lparr>isProcessing = True, eventsQueue = [],
            currentAnimationFrame = Some 0, frames = [], nextFrame = 1,
            inflight = [Call 1 PAUSE Loop Pending], nextCall = 2, nextPromise = 0,
            calls = [(PLAY, 1::nat), (PAUSE, 2)],
            log = [(Info, ''play''), (Warn, ''error processing play: stalled''), (Info, ''pause'')],
            resolved = [], unhandled = []\<rparr>"]
  by (simp add: eval_simps)

text \<open>
  As stated, C1 fails across \<open>processExclusively\<close>: it dispatches its command at once,
  while the command that the loop dispatched is still pending.
\<close>

theorem exclusive_overlaps_loop_call:
  "run complete_handler [EnqueueForProcessing PLAY 1, ProcessExclusively PAUSE 2]
       createVideoEventSequencer
     = Some \<lparr>isProcessing = False, eventsQueue = [], currentAnimationFrame = None,
          frames = [], nextFrame = 0,
          inflight = [Call 0 PLAY Loop Pending, Call 1 PAUSE (Exclusive 0) Pending],
          nextCall = 2, nextPromise = 1, calls = [(PLAY, 1::nat), (PAUSE, 2)],
          log = [(Info, ''play''), (Info, ''pause'')], resolved = [], unhandled = []\<rparr>
   \<and> pending (processExclusively complete_handler PAUSE 2
        (enqueueForProcessing complete_handler PLAY (1::nat) createVideoEventSequencer))
     = [Call 0 PLAY Loop Pending, Call 1 PAUSE (Exclusive 0) Pending]"
  by (simp add: eval_simps)

subsection \<open>Preemption\<close>

lemma processExclusively_after_reset:
  "processExclusively args x a s =
     processNextEvent args x a (Exclusive (nextPromise s))
       ((destroy s)\<lparr>nextPromise := Suc (nextPromise s)\<rparr>)"
  by (simp add: processExclusively_def destroy_def cancelAnimationFrame_def Let_def
      split: option.splits)

lemma processExclusively_fields:
  "eventsQueue (processExclusively args x a s) = []"
  "\<not> isProcessing (processExclusively args x a s)"
  "frames (processExclusively args x a s) =
     (case currentAnimationFrame s of None \<Rightarrow> frames s | Some h \<Rightarrow> removeAll h (frames s))"
  "calls (processExclusively args x a s) = calls s @ filter (dispatches args) [(x, a)]"
  "inflight (processExclusively args x a s) =
     inflight s @ [Call (nextCall s) x (Exclusive (nextPromise s))
       (dispatch_status args x a)]"
  "nextCall (processExclusively args x a s) = Suc (nextCall s)"
  "nextPromise (processExclusively args x a s) = Suc (nextPromise s)"
  "resolved (processExclusively args x a s) = resolved s"
  "unhandled (processExclusively args x a s) = unhandled s"
  by (simp_all add: processExclusively_after_reset processNextEvent_fields processNextEvent_calls
      processNextEvent_inflight destroy_def cancelAnimationFrame_def Let_def split: option.splits)

lemma processLoop_from_queue:
  "\<exists>ys. calls (processLoop args s) = calls s @ ys
        \<and> set ys \<union> set (eventsQueue (processLoop args s)) \<subseteq> set (eventsQueue s)"
  by (auto simp: processLoop_def processNextEvent_calls processNextEvent_fields
      split: list.splits)

lemma step_from_queue:
  assumes "step args e s = Some s'"
  shows "\<exists>ys. calls s' = calls s @ ys
           \<and> set ys \<union> set (eventsQueue s') \<subseteq> set (eventsQueue s) \<union> set (submitted [e])"
proof (cases e)
  case (EnqueueForProcessing ev a)
  then show ?thesis
    using assms
      processLoop_from_queue[of args "s\<lparr>eventsQueue := eventsQueue s @ [(ev, a)], isProcessing := True\<rparr>"]
    by (auto simp: enqueueForProcessing_def ensureProcessing_def)
next
  case (ProcessExclusively ev a)
  then show ?thesis
    using assms by (auto simp: processExclusively_fields)
next
  case Destroy
  then show ?thesis
    using assms by (auto simp: destroy_def cancelAnimationFrame_def Let_def split: option.splits)
next
  case (Tick h)
  then show ?thesis
    using assms processLoop_from_queue[of args "s\<lparr>frames := removeAll h (frames s)\<rparr>"]
    by (auto split: if_splits)
next
  case (Settle cid out)
  then show ?thesis
    using assms by (auto simp: settle_def split: option.splits status.splits)
next
  case (Continue cid)
  then show ?thesis
    using assms by (auto simp: resume_fields split: option.splits status.splits)
qed

lemma submitted_Cons: "set (submitted (e # tr)) = set (submitted [e]) \<union> set (submitted tr)"
  by (cases e) auto

lemma run_from_queue:
  "run args tr s = Some s' \<Longrightarrow>
     \<exists>ys. calls s' = calls s @ ys
        \<and> set ys \<union> set (eventsQueue s') \<subseteq> set (eventsQueue s) \<union> set (submitted tr)"
proof (induction tr arbitrary: s)
  case Nil
  then show ?case by simp
next
  case (Cons e tr)
  from Cons.prems obtain s1 where s1: "step args e s = Some s1" and r: "run args tr s1 = Some s'"
    by (auto split: option.splits)
  from step_from_queue[OF s1] obtain ys where
    ys: "calls s1 = calls s @ ys"
        "set ys \<union> set (eventsQueue s1) \<subseteq> set (eventsQueue s) \<union> set (submitted [e])"
    by blast
  from Cons.IH[OF r] obtain zs where
    zs: "calls s' = calls s1 @ zs"
        "set zs \<union> set (eventsQueue s') \<subseteq> set (eventsQueue s1) \<union> set (submitted tr)"
    by blast
  have "calls s' = calls s @ (ys @ zs)" using ys(1) zs(1) by simp
  moreover have "set (ys @ zs) \<union> set (eventsQueue s')
                   \<subseteq> set (eventsQueue s) \<union> set (submitted (e # tr))"
    using ys(2) zs(2) unfolding submitted_Cons[of e tr] by auto
  ultimately show ?case by blast
qed

text \<open>
  Claim C3, as amended. \<open>processExclusively(X)\<close> is the executor applied to \<open>X\<close> in the state
  that the three resets of \<open>destroy\<close> leave: the queue is already empty, the frame whose
  handle \<open>currentAnimationFrame\<close> holds is already cancelled and the flag is already off
  when the handler is called; on the normal path that frame is the only one, so none remains
  requested. When the dispatch of \<open>X\<close> reaches the handler, the call it receives next is
  \<open>X\<close>. Whatever happens afterwards, every call the handler receives after \<open>X\<close> is a
  command that a producer method was given after the preemption: the commands that were
  queued before are gone.
\<close>

theorem preemption_discards_backlog:
  "processExclusively args x a s =
     processNextEvent args x a (Exclusive (nextPromise s))
       ((destroy s)\<lparr>nextPromise := Suc (nextPromise s)\<rparr>)
   \<and> eventsQueue (destroy s) = [] \<and> \<not> isProcessing (destroy s)
   \<and> frames (destroy s) =
       (case currentAnimationFrame s of None \<Rightarrow> frames s | Some h \<Rightarrow> removeAll h (frames s))
   \<and> eventsQueue (processExclusively args x a s) = []
   \<and> (normal s \<longrightarrow> frames (processExclusively args x a s) = [])
   \<and> (dispatches args (x, a) \<longrightarrow> calls (processExclusively args x a s) = calls s @ [(x, a)])
   \<and> (dispatches args (x, a) \<and> run args tr (processExclusively args x a s) = Some s' \<longrightarrow>
        (\<exists>ys. calls s' = calls s @ [(x, a)] @ ys \<and> set ys \<subseteq> set (submitted tr)))"
proof (intro conjI impI)
  show "processExclusively args x a s =
     processNextEvent args x a (Exclusive (nextPromise s))
       ((destroy s)\<lparr>nextPromise := Suc (nextPromise s)\<rparr>)"
    by (rule processExclusively_after_reset)
  show "eventsQueue (destroy s) = []" "\<not> isProcessing (destroy s)"
    "frames (destroy s) =
       (case currentAnimationFrame s of None \<Rightarrow> frames s | Some h \<Rightarrow> removeAll h (frames s))"
    by (simp_all add: destroy_def cancelAnimationFrame_def Let_def split: option.splits)
  show "eventsQueue (processExclusively args x a s) = []"
    by (rule processExclusively_fields)
  show "frames (processExclusively args x a s) = []" if "normal s"
    using that by (auto simp: normal_cases processExclusively_fields split: option.splits)
  show "calls (processExclusively args x a s) = calls s @ [(x, a)]" if "dispatches args (x, a)"
    using that by (simp add: processExclusively_fields)
next
  assume h: "dispatches args (x, a) \<and> run args tr (processExclusively args x a s) = Some s'"
  from run_from_queue[of args tr "processExclusively args x a s" s'] h
  obtain ys where "calls s' = calls (processExclusively args x a s) @ ys"
    "set ys \<subseteq> set (submitted tr)"
    by (auto simp: processExclusively_fields)
  then show "\<exists>ys. calls s' = calls s @ [(x, a)] @ ys \<and> set ys \<subseteq> set (submitted tr)"
    using h by (auto simp: processExclusively_fields)
qed

theorem preemption_discards_backlog_witness:
  "dispatches complete_handler (UPDATE_MEDIA_STATE, 9::nat)
   \<and> run complete_handler
        [EnqueueForProcessing PLAY 1, EnqueueForProcessing PAUSE 2, EnqueueForProcessing SEEK 3]
        createVideoEventSequencer = Some backlog
   \<and> eventsQueue backlog = [(PAUSE, 2), (SEEK, 3)]
   \<and> run complete_handler
        [Settle 0 Fulfilled, Continue 0, Tick 0, Settle 1 Fulfilled, Continue 1,
         EnqueueForProcessing NEXT 4]
        (processExclusively complete_handler UPDATE_MEDIA_STATE 9 backlog)
       = Some \<lparr>isProcessing = True, eventsQueue = [], currentAnimationFrame = Some 0,
           frames = [], nextFrame = 1, inflight = [Call 2 NEXT Loop Pending],
           nextCall = 3, nextPromise = 1,
           calls = [(PLAY, 1), (UPDATE_MEDIA_STATE, 9), (NEXT, 4)],
           log = [(Info, ''play''), (Info, ''updateMediaState''), (Info, ''next'')],
           resolved = [0], unhandled = []\<rparr>
   \<and> [(PLAY, 1), (UPDATE_MEDIA_STATE, 9), (NEXT, 4::nat)]
       = calls backlog @ [(UPDATE_MEDIA_STATE, 9)] @ [(NEXT, 4)]
   \<and> submitted [Settle 0 Fulfilled, Continue 0, Tick 0, Settle 1 Fulfilled, Continue 1,
         EnqueueForProcessing NEXT (4::nat)] = [(NEXT, 4)]
   \<and> run complete_handler
        [EnqueueForProcessing PLAY 1, EnqueueForProcessing PAUSE 2, EnqueueForProcessing SEEK 3,
         Settle 0 Fulfilled, Continue 0]
        createVideoEventSequencer = Some scheduled
   \<and> normal scheduled \<and> frames scheduled = [0]
   \<and> processExclusively complete_handler UPDATE_MEDIA_STATE 9 scheduled
       = \<lparr>isProcessing = False, eventsQueue = [], currentAnimationFrame = Some 0,
           frames = [], nextFrame = 1,
           inflight = [Call 1 UPDATE_MEDIA_STATE (Exclusive 0) Pending],
           nextCall = 2, nextPromise = 1, calls = [(PLAY, 1), (UPDATE_MEDIA_STATE, 9)],
           log = [(Info, ''play''), (Info, ''updateMediaState'')],
           resolved = [], unhandled = []\<rparr>"
  using preemption_discards_backlog[of complete_handler UPDATE_MEDIA_STATE 9 scheduled "[]"
          "processExclusively complete_handler UPDATE_MEDIA_STATE 9 scheduled"]
        preemption_discards_backlog[of complete_handler UPDATE_MEDIA_STATE 9 backlog
        "[Settle 0 Fulfilled, Continue 0, Tick 0, Settle 1 Fulfilled, Continue 1,
          EnqueueForProcessing NEXT 4]"
        "\<lparr>isProcessing = True, eventsQueue = [], currentAnimationFrame = Some 0,
           frames = [], nextFrame = 1, inflight = [Call 2 NEXT Loop Pending],
           nextCall = 3, nextPromise = 1,
           calls = [(PLAY, 1), (UPDATE_MEDIA_STATE, 9), (NEXT, 4)],
           log = [(Info, ''play''), (Info, ''updateMediaState''), (Info, ''next'')],
           resolved = [0], unhandled = []\<rparr>"]
  by (simp add: eval_simps)

text \<open>
  As stated, C3 fails where more than one frame is requested: only the handle that
  \<open>currentAnimationFrame\<close> holds is cancelled. After a first preemption with a command in
  flight, the loop of that command and the loop that the next \<open>enqueueForProcessing\<close> starts
  each request a frame; a second preemption, with a command queued, cancels the later frame
  and leaves the earlier one requested, and it fires afterwards.
\<close>

theorem stale_tick_survives_preemption:
  "run complete_handler
     [EnqueueForProcessing PLAY 1, ProcessExclusively PAUSE 2, EnqueueForProcessing SEEK 3,
      Settle 0 Fulfilled, Continue 0, Settle 2 Fulfilled, Continue 2, EnqueueForProcessing NEXT 4]
     createVideoEventSequencer = Some two_frames
   \<and> eventsQueue two_frames = [(NEXT, 4)]
   \<and> frames two_frames = [0, 1]
   \<and> frames (processExclusively complete_handler REWIND 5 two_frames) = [0]
   \<and> step complete_handler (Tick 0) (processExclusively complete_handler REWIND 5 two_frames)
       = Some \<lparr>isProcessing = False, eventsQueue = [], currentAnimationFrame = Some 1,
           frames = [], nextFrame = 2,
           inflight = [Call 1 PAUSE (Exclusive 0) Pending, Call 3 REWIND (Exclusive 1) Pending],
           nextCall = 4, nextPromise = 2,
           calls = [(PLAY, 1), (PAUSE, 2), (SEEK, 3), (REWIND, 5)],
           log = [(Info, ''play''), (Info, ''pause''), (Info, ''seek''), (Info, ''rewind'')],
           resolved = [], unhandled = []\<rparr>"
  by (simp add: eval_simps)

subsection \<open>After destroy\<close>

lemma idle_stays:
  assumes "eventsQueue d = []" and "\<not> isProcessing d" and "frames d = []" and "inflight d = []"
    and "quiet tr" and "run args tr d = Some s'"
  shows "s' = d"
  using assms(5,6)
proof (induction tr)
  case Nil
  then show ?case by simp
next
  case (Cons e tr)
  have "step args e d = Some d"
  proof (cases e)
    case Destroy
    then show ?thesis using destroy_idle[OF assms(1-3)] by simp
  next
    case (Tick h)
    then show ?thesis using Cons.prems assms(3) by simp
  next
    case (Settle cid out)
    then show ?thesis using Cons.prems assms(4) by (simp add: lookup_call_def)
  next
    case (Continue cid)
    then show ?thesis using Cons.prems assms(4) by (simp add: lookup_call_def)
  qed (use Cons.prems in auto)
  then show ?case using Cons by simp
qed

lemma destroy_fields:
  "eventsQueue (destroy s) = []"
  "\<not> isProcessing (destroy s)"
  "frames (destroy s) =
     (case currentAnimationFrame s of None \<Rightarrow> frames s | Some h \<Rightarrow> removeAll h (frames s))"
  "inflight (destroy s) = inflight s"
  "calls (destroy s) = calls s"
  by (simp_all add: destroy_def cancelAnimationFrame_def Let_def split: option.splits)

text \<open>
  Claim C7, as amended. \<open>destroy\<close> empties the queue, cancels the frame whose handle
  \<open>currentAnimationFrame\<close> holds and turns the cycle flag off. On the normal path, when no
  command is in flight at that moment (the sequencer is idle or waits for a frame), nothing
  is left that could run: no frame is requested, no frame can fire, no call can settle or
  continue, and every trace without a producer call leaves the state as \<open>destroy\<close> left
  it, so the handler is not called and no frame is requested until a producer method is
  called again. The sequencer keeps no record of the \<open>destroy\<close>: the next
  \<open>enqueueForProcessing\<close> starts a drain cycle and dispatches its command at once.
\<close>

theorem destroy_quiescent:
  assumes "normal_path tr" and "run args tr createVideoEventSequencer = Some s"
    and "inflight s = []"
  shows "eventsQueue (destroy s) = [] \<and> \<not> isProcessing (destroy s)
     \<and> frames (destroy s) = [] \<and> inflight (destroy s) = [] \<and> calls (destroy s) = calls s
     \<and> step args (Tick h) (destroy s) = None
     \<and> step args (Settle cid out) (destroy s) = None
     \<and> step args (Continue cid) (destroy s) = None
     \<and> (quiet tr' \<and> run args tr' (destroy s) = Some s' \<longrightarrow> s' = destroy s)
     \<and> (dispatches args (y, b) \<longrightarrow>
          calls (enqueueForProcessing args y b (destroy s)) = calls s @ [(y, b)]
          \<and> isProcessing (enqueueForProcessing args y b (destroy s)))"
proof -
  have "normal s" using run_normal[OF normal_init assms(1,2)] .
  then have fr: "frames (destroy s) = []"
    using assms(3) by (auto simp: normal_cases destroy_fields split: option.splits)
  have inf: "inflight (destroy s) = []"
    using assms(3) by (simp add: destroy_fields)
  have "s' = destroy s" if "quiet tr' \<and> run args tr' (destroy s) = Some s'"
    using idle_stays[OF destroy_fields(1,2) fr inf, of tr' args s'] that by simp
  moreover have "enqueueForProcessing args y b (destroy s)
      = processNextEvent args y b Loop ((destroy s)\<lparr>isProcessing := True, eventsQueue := []\<rparr>)"
    by (simp add: enqueueForProcessing_def ensureProcessing_def processLoop_def destroy_fields)
  ultimately show ?thesis
    using fr inf
    by (simp add: destroy_fields(1,2,5) lookup_call_def processNextEvent_calls
        processNextEvent_fields)
qed

theorem destroy_quiescent_witness:
  "normal_path [EnqueueForProcessing PLAY 1, EnqueueForProcessing PAUSE 2,
       EnqueueForProcessing SEEK 3, Settle 0 Fulfilled, Continue 0 :: nat event]
   \<and> run complete_handler
        [EnqueueForProcessing PLAY 1, EnqueueForProcessing PAUSE 2,
         EnqueueForProcessing SEEK 3, Settle 0 Fulfilled, Continue 0]
        createVideoEventSequencer = Some scheduled
   \<and> inflight scheduled = [] \<and> frames scheduled = [0]
   \<and> eventsQueue scheduled = [(PAUSE, 2), (SEEK, 3)]
   \<and> destroy scheduled = scheduled\<lparr>isProcessing := False, eventsQueue := [], frames := []\<rparr>
   \<and> step complete_handler (Tick 0) (destroy scheduled) = None
   \<and> quiet [Destroy :: nat event]
   \<and> run complete_handler [Destroy] (destroy scheduled) = Some (destroy scheduled)
   \<and> dispatches complete_handler (NEXT, 4::nat)
   \<and> calls (enqueueForProcessing complete_handler NEXT 4 (destroy scheduled))
       = [(PLAY, 1), (NEXT, 4)]"
  using destroy_quiescent[of "[EnqueueForProcessing PLAY 1, EnqueueForProcessing PAUSE 2,
         EnqueueForProcessing SEEK 3, Settle 0 Fulfilled, Continue 0]" complete_handler
         scheduled 0 0 Fulfilled "[Destroy]" "destroy scheduled" NEXT 4]
  by (simp add: eval_simps)

text \<open>
  As stated, C7 fails: there is no record of the sequencer having been destroyed. The
  reactions of a command that was in flight at the \<open>destroy\<close> request a frame after it, and
  a later \<open>enqueueForProcessing\<close> starts a drain cycle, which dispatches and requests
  frames as before.
\<close>

theorem tick_after_destroy:
  "run complete_handler
     [EnqueueForProcessing PLAY 1, Destroy, Settle 0 Fulfilled, Continue 0]
     createVideoEventSequencer
     = Some \<lparr>isProcessing = False, eventsQueue = [], currentAnimationFrame = Some 0,
          frames = [0], nextFrame = 1, inflight = [], nextCall = 1, nextPromise = 0,
          calls = [(PLAY, 1::nat)], log = [(Info, ''play'')], resolved = [], unhandled = []\<rparr>
   \<and> run complete_handler
     [EnqueueForProcessing PLAY 1, EnqueueForProcessing PAUSE 2, Settle 0 Fulfilled, Continue 0,
      Destroy, EnqueueForProcessing SEEK 3, Settle 1 Fulfilled, Continue 1]
     createVideoEventSequencer
     = Some \<lparr>isProcessing = True, eventsQueue = [], currentAnimationFrame = Some 1,
          frames = [1], nextFrame = 2, inflight = [], nextCall = 2, nextPromise = 0,
          calls = [(PLAY, 1::nat), (SEEK, 3)], log = [(Info, ''play''), (Info, ''seek'')],
          resolved = [], unhandled = []\<rparr>"
  by (simp add: eval_simps)

subsection \<open>The cycle flag during an exclusive command\<close>

text \<open>
  Claim C10. \<open>processExclusively\<close> leaves the cycle flag off, and neither the settlement of
  its command nor the reactions that follow touch the flag. So an \<open>enqueueForProcessing\<close>
  that comes right after it finds the flag off and starts a drain cycle at once: with a
  handler that accepts both commands, both handler calls are pending together.
\<close>

theorem exclusive_leaves_cycle_inactive:
  "\<not> isProcessing (processExclusively args x a s)
   \<and> isProcessing (settle cid out s1) = isProcessing s1
   \<and> (call_waiter c = Exclusive p \<longrightarrow> isProcessing (resume args c out s1) = isProcessing s1)
   \<and> (accepts args (x, a) \<and> accepts args (y, b) \<longrightarrow>
        inflight (enqueueForProcessing args y b (processExclusively args x a s))
          = inflight s @ [Call (nextCall s) x (Exclusive (nextPromise s)) Pending,
                          Call (Suc (nextCall s)) y Loop Pending]
        \<and> calls (enqueueForProcessing args y b (processExclusively args x a s))
          = calls s @ [(x, a), (y, b)]
        \<and> isProcessing (enqueueForProcessing args y b (processExclusively args x a s)))"
proof (intro conjI impI)
  show "\<not> isProcessing (processExclusively args x a s)"
    by (rule processExclusively_fields)
  show "isProcessing (settle cid out s1) = isProcessing s1"
    by (simp add: settle_def)
  show "isProcessing (resume args c out s1) = isProcessing s1" if "call_waiter c = Exclusive p"
    by (rule resume_fields)
next
  assume h: "accepts args (x, a) \<and> accepts args (y, b)"
  let ?s1 = "processExclusively args x a s"
  have e: "enqueueForProcessing args y b ?s1
             = processNextEvent args y b Loop (?s1\<lparr>isProcessing := True, eventsQueue := []\<rparr>)"
    by (simp add: enqueueForProcessing_def ensureProcessing_def processLoop_def
        processExclusively_fields)
  have ax: "accepts args (x, a)" and ay: "accepts args (y, b)"
    using h by simp_all
  show "inflight (enqueueForProcessing args y b ?s1)
          = inflight s @ [Call (nextCall s) x (Exclusive (nextPromise s)) Pending,
                          Call (Suc (nextCall s)) y Loop Pending]"
    "calls (enqueueForProcessing args y b ?s1) = calls s @ [(x, a), (y, b)]"
    "isProcessing (enqueueForProcessing args y b ?s1)"
    using dispatch_status_accepts[OF ax] dispatch_status_accepts[OF ay]
      accepts_dispatches[OF ax] accepts_dispatches[OF ay]
    unfolding e
    by (simp_all add: processNextEvent_fields processNextEvent_calls processNextEvent_inflight
        processExclusively_fields)
qed

theorem exclusive_leaves_cycle_inactive_witness:
  "accepts complete_handler (PLAY, 1::nat) \<and> accepts complete_handler (PAUSE, 2::nat)
   \<and> call_waiter (Call 0 PLAY (Exclusive 0) (Settled Fulfilled)) = Exclusive 0
   \<and> enqueueForProcessing complete_handler PAUSE 2
        (processExclusively complete_handler PLAY 1 createVideoEventSequencer)
       = \<lparr>isProcessing = True, eventsQueue = [], currentAnimationFrame = None,
           frames = [], nextFrame = 0,
           inflight = [Call 0 PLAY (Exclusive 0) Pending, Call 1 PAUSE Loop Pending],
           nextCall = 2, nextPromise = 1, calls = [(PLAY, 1::nat), (PAUSE, 2)],
           log = [(Info, ''play''), (Info, ''pause'')], resolved = [], unhandled = []\<rparr>
   \<and> pending (enqueueForProcessing complete_handler PAUSE (2::nat)
        (processExclusively complete_handler PLAY 1 createVideoEventSequencer))
       = [Call 0 PLAY (Exclusive 0) Pending, Call 1 PAUSE Loop Pending]"
  using exclusive_leaves_cycle_inactive[of complete_handler PLAY "1::nat"
          createVideoEventSequencer 0 Fulfilled createVideoEventSequencer
          "Call 0 PLAY (Exclusive 0) (Settled Fulfilled)" 0 PAUSE 2]
  by (simp add: eval_simps)

subsection \<open>A rejection that the catch reaction cannot log\<close>

lemma destroy_observed:
  "resolved (destroy s) = resolved s"
  "unhandled (destroy s) = unhandled s"
  "nextPromise (destroy s) = nextPromise s"
  by (simp_all add: destroy_def cancelAnimationFrame_def Let_def split: option.splits)





lemma lookup_call_inflight: "lookup_call cid s = Some c \<Longrightarrow> c \<in> set (inflight s)"
  by (auto simp: lookup_call_def find_Some_iff)

lemma processLoop_inflight:
  "call_waiter ` set (inflight (processLoop args s)) \<subseteq> insert Loop (call_waiter ` set (inflight s))"
  by (auto simp: processLoop_def processNextEvent_inflight split: list.splits)

lemma settle_waiters:
  "call_waiter ` set (inflight (settle cid out s)) = call_waiter ` set (inflight s)"
proof -
  have "map call_waiter (inflight (settle cid out s)) = map call_waiter (inflight s)"
    by (simp add: settle_def)
  then show ?thesis by (metis list.set_map)
qed

lemma settle_observed:
  "resolved (settle cid out s) = resolved s"
  "nextPromise (settle cid out s) = nextPromise s"
  by (simp_all add: settle_def)

lemma step_unresolved:
  assumes "step args e s = Some s'"
    and "p \<notin> set (resolved s)"
    and "Exclusive p \<notin> call_waiter ` set (inflight s)"
    and "p < nextPromise s"
  shows "p \<notin> set (resolved s') \<and> Exclusive p \<notin> call_waiter ` set (inflight s')
         \<and> p < nextPromise s'"
proof (cases e)
  case (EnqueueForProcessing ev a)
  have "call_waiter ` set (inflight s') \<subseteq> insert Loop (call_waiter ` set (inflight s))"
    using assms(1) EnqueueForProcessing
      processLoop_inflight[of args "s\<lparr>eventsQueue := eventsQueue s @ [(ev, a)], isProcessing := True\<rparr>"]
    by (auto simp: enqueueForProcessing_def ensureProcessing_def split: if_splits)
  moreover have "resolved s' = resolved s" "nextPromise s' = nextPromise s"
    using assms(1) EnqueueForProcessing
    by (auto simp: enqueueForProcessing_def ensureProcessing_def processLoop_fields
        split: if_splits)
  ultimately show ?thesis using assms(2-4) by auto
next
  case (ProcessExclusively ev a)
  then show ?thesis
    using assms by (auto simp: processExclusively_fields)
next
  case Destroy
  then show ?thesis
    using assms by (auto simp: destroy_observed destroy_fields)
next
  case (Tick h)
  then have s': "s' = processLoop args (s\<lparr>frames := removeAll h (frames s)\<rparr>)"
    using assms(1) by (auto split: if_splits)
  show ?thesis
    using assms(2-4) processLoop_inflight[of args "s\<lparr>frames := removeAll h (frames s)\<rparr>"]
    unfolding s' by (auto simp: processLoop_fields)
next
  case (Settle cid out)
  then have "s' = settle cid out s"
    using assms(1) by (auto split: option.splits status.splits)
  then show ?thesis
    using assms(2-4) by (simp add: settle_observed settle_waiters)
next
  case (Continue cid)
  then obtain c out where c: "lookup_call cid s = Some c" and s': "s' = resume args c out s"
    using assms(1) by (auto split: option.splits status.splits)
  from lookup_call_inflight[OF c] assms(3) have "call_waiter c \<noteq> Exclusive p"
    by (metis image_eqI)
  then show ?thesis
    using assms(2-4) unfolding s'
    by (auto simp: resume_observed resume_fields split: waiter.splits)
qed

lemma run_unresolved:
  "run args tr s = Some s' \<Longrightarrow> p \<notin> set (resolved s)
     \<Longrightarrow> Exclusive p \<notin> call_waiter ` set (inflight s) \<Longrightarrow> p < nextPromise s
     \<Longrightarrow> p \<notin> set (resolved s')"
proof (induction tr arbitrary: s)
  case Nil
  then show ?case by simp
next
  case (Cons e tr)
  then obtain s1 where s1: "step args e s = Some s1" and r: "run args tr s1 = Some s'"
    by (auto split: option.splits)
  from step_unresolved[OF s1 Cons.prems(2-4)] Cons.IH[OF r] show ?case by blast
qed

lemma step_stalled:
  assumes "step args e s = Some s'" and "\<not> preempts e"
    and "isProcessing s" and "frames s = []" and "inflight s = []"
  shows "isProcessing s' \<and> frames s' = [] \<and> inflight s' = [] \<and> calls s' = calls s"
  using assms
  by (cases e) (auto simp: enqueueForProcessing_def ensureProcessing_def lookup_call_def)

lemma run_stalled:
  "run args tr s = Some s' \<Longrightarrow> normal_path tr \<Longrightarrow> isProcessing s \<Longrightarrow> frames s = []
     \<Longrightarrow> inflight s = [] \<Longrightarrow> calls s' = calls s"
proof (induction tr arbitrary: s)
  case Nil
  then show ?case by simp
next
  case (Cons e tr)
  then obtain s1 where s1: "step args e s = Some s1" and r: "run args tr s1 = Some s'"
    by (auto split: option.splits)
  from Cons.prems(2) have ne: "\<not> preempts e" and np: "normal_path tr" by simp_all
  from step_stalled[OF s1 ne Cons.prems(3-5)] Cons.IH[OF r np] show ?case by simp
qed

text \<open>
  Claim C4, at the input where the program departs from it: \<open>processExclusively(play)\<close> on
  a new sequencer whose handler's \<open>play\<close> returns a promise that is rejected with a value
  that has no string conversion (a symbol, an object without prototype). The \<open>catch\<close>
  reaction evaluates the template of its warning first, which throws, so \<open>ensureResolve\<close>
  is not reached: the warning is not logged, neither the callback nor \<open>resolve()\<close> runs, the
  error leaves the reaction as an unhandled rejection, and the promise that
  \<open>processExclusively\<close> returned is resolved in no continuation whatever. The same happens
  for every command of a sequencer created with \<open>logger: undefined\<close>, where the logging
  statement of \<open>processEvent\<close> rejects the dispatch before the handler is called.
\<close>

theorem exclusive_promise_never_resolved:
  "run complete_handler
     [ProcessExclusively PLAY 1, Settle 0 (Rejected Unprintable), Continue 0]
     createVideoEventSequencer = Some abandoned
   \<and> reactions complete_handler PLAY (callback_of (Exclusive 0)) (Rejected Unprintable)
       = ([], Some (LoggingThrew (TypeError NotConvertible)))
   \<and> settlements False
        (fst (reactions complete_handler PLAY (callback_of (Exclusive 0)) (Rejected Unprintable))) = 0
   \<and> resolved abandoned = []
   \<and> \<not> (\<exists>tr s'. run complete_handler tr abandoned = Some s' \<and> 0 \<in> set (resolved s'))
   \<and> run no_logger [ProcessExclusively PLAY (1::nat), Continue 0] createVideoEventSequencer
       = Some \<lparr>isProcessing = False, eventsQueue = [], currentAnimationFrame = None,
            frames = [], nextFrame = 0, inflight = [], nextCall = 1, nextPromise = 1,
            calls = [], log = [], resolved = [],
            unhandled = [LoggingThrew (TypeError (Undefined Warn))]\<rparr>"
proof -
  have never: "\<not> (\<exists>tr s'. run complete_handler tr abandoned = Some s' \<and> 0 \<in> set (resolved s'))"
  proof
    assume "\<exists>tr s'. run complete_handler tr abandoned = Some s' \<and> 0 \<in> set (resolved s')"
    then obtain tr s' where r: "run complete_handler tr abandoned = Some s'"
      and m: "0 \<in> set (resolved s')" by blast
    have "0 \<notin> set (resolved s')"
      by (rule run_unresolved[OF r]) (simp_all add: abandoned_def)
    with m show False by simp
  qed
  have rest: "run complete_handler
     [ProcessExclusively PLAY 1, Settle 0 (Rejected Unprintable), Continue 0]
     createVideoEventSequencer = Some abandoned"
    "reactions complete_handler PLAY (callback_of (Exclusive 0)) (Rejected Unprintable)
       = ([], Some (LoggingThrew (TypeError NotConvertible)))"
    "settlements False
        (fst (reactions complete_handler PLAY (callback_of (Exclusive 0)) (Rejected Unprintable))) = 0"
    "resolved abandoned = []"
    "run no_logger [ProcessExclusively PLAY (1::nat), Continue 0] createVideoEventSequencer
       = Some \<lparr>isProcessing = False, eventsQueue = [], currentAnimationFrame = None,
            frames = [], nextFrame = 0, inflight = [], nextCall = 1, nextPromise = 1,
            calls = [], log = [], resolved = [],
            unhandled = [LoggingThrew (TypeError (Undefined Warn))]\<rparr>"
    by (simp_all add: eval_simps)
  from never rest show ?thesis by blast
qed

text \<open>
  Claim C5, at the input where the program departs from it: \<open>enqueueForProcessing(play)\<close>
  then \<open>enqueueForProcessing(pause)\<close> on a new sequencer whose handler's \<open>play\<close> returns a
  promise that is rejected with a value that has no string conversion. The failure reaches
  the \<open>catch\<close> reaction, but no warning is logged (the log holds the name of \<open>play\<close> only),
  the error of the conversion leaves the reaction as an unhandled rejection, and \<open>pause\<close>
  stays in the queue with no frame requested. With \<open>logger: undefined\<close> the same happens
  to a command whose handler would have succeeded, and the handler is never called.
\<close>

theorem failure_escapes_unlogged:
  "run complete_handler
     [EnqueueForProcessing PLAY 1, EnqueueForProcessing PAUSE 2,
      Settle 0 (Rejected Unprintable), Continue 0]
     createVideoEventSequencer = Some stalled
   \<and> warning (complete_handler :: nat VideoEventSequencerArgs) PLAY Unprintable
       = Inl (TypeError NotConvertible)
   \<and> log stalled = [(Info, ''play'')]
   \<and> unhandled stalled = [LoggingThrew (TypeError NotConvertible)]
   \<and> eventsQueue stalled = [(PAUSE, 2)]
   \<and> frames stalled = []
   \<and> step complete_handler (Tick 0) stalled = None
   \<and> run no_logger [EnqueueForProcessing PLAY (1::nat), EnqueueForProcessing PAUSE 2, Continue 0]
        createVideoEventSequencer
       = Some \<lparr>isProcessing = True, eventsQueue = [(PAUSE, 2)], currentAnimationFrame = None,
            frames = [], nextFrame = 0, inflight = [], nextCall = 1, nextPromise = 0,
            calls = [], log = [], resolved = [],
            unhandled = [LoggingThrew (TypeError (Undefined Warn))]\<rparr>"
  by (simp add: eval_simps)

text \<open>
  Claim C6, at the input where the program departs from it: the drain step that removed
  \<open>play\<close> from the head and executed it does not request the next frame when the promise of
  \<open>play\<close> was rejected with a value that has no string conversion: the promise of
  \<open>processNextEvent\<close> stays pending, so \<open>processLoop\<close> never passes its \<open>await\<close>. The cycle
  flag stays on with nothing in flight and no frame requested, so a later
  \<open>enqueueForProcessing\<close> only appends, and in no continuation made of
  \<open>enqueueForProcessing\<close> calls, frames and settlements does the handler receive another
  call.
\<close>

theorem drain_step_requests_no_frame:
  "run complete_handler
     [EnqueueForProcessing PLAY 1, EnqueueForProcessing PAUSE 2,
      Settle 0 (Rejected Unprintable)]
     createVideoEventSequencer
       = Some \<lparr>isProcessing = True, eventsQueue = [(PAUSE, 2)], currentAnimationFrame = None,
            frames = [], nextFrame = 0,
            inflight = [Call 0 PLAY Loop (Settled (Rejected Unprintable))],
            nextCall = 1, nextPromise = 0, calls = [(PLAY, 1)], log = [(Info, ''play'')],
            resolved = [], unhandled = []\<rparr>
   \<and> resume complete_handler (Call 0 PLAY Loop (Settled (Rejected Unprintable)))
        (Rejected Unprintable)
        \<lparr>isProcessing = True, eventsQueue = [(PAUSE, 2)], currentAnimationFrame = None,
            frames = [], nextFrame = 0,
            inflight = [Call 0 PLAY Loop (Settled (Rejected Unprintable))],
            nextCall = 1, nextPromise = 0, calls = [(PLAY, 1)], log = [(Info, ''play'')],
            resolved = [], unhandled = []\<rparr> = stalled
   \<and> isProcessing stalled \<and> frames stalled = [] \<and> inflight stalled = []
   \<and> enqueueForProcessing complete_handler SEEK 3 stalled
       = stalled\<lparr>eventsQueue := [(PAUSE, 2), (SEEK, 3)]\<rparr>
   \<and> \<not> (\<exists>tr s'. normal_path tr \<and> run complete_handler tr stalled = Some s'
              \<and> calls s' \<noteq> [(PLAY, 1)])"
proof -
  have never: "\<not> (\<exists>tr s'. normal_path tr \<and> run complete_handler tr stalled = Some s'
              \<and> calls s' \<noteq> [(PLAY, 1)])"
  proof
    assume "\<exists>tr s'. normal_path tr \<and> run complete_handler tr stalled = Some s'
              \<and> calls s' \<noteq> [(PLAY, 1)]"
    then obtain tr s' where n: "normal_path tr"
      and r: "run complete_handler tr stalled = Some s'"
      and m: "calls s' \<noteq> [(PLAY, 1)]" by blast
    have "calls s' = calls stalled"
      by (rule run_stalled[OF r n]) (simp_all add: stalled_def)
    with m show False by (simp add: stalled_def)
  qed
  have rest: "run complete_handler
     [EnqueueForProcessing PLAY 1, EnqueueForProcessing PAUSE 2,
      Settle 0 (Rejected Unprintable)]
     createVideoEventSequencer
       = Some \<lparr>isProcessing = True, eventsQueue = [(PAUSE, 2)], currentAnimationFrame = None,
            frames = [], nextFrame = 0,
            inflight = [Call 0 PLAY Loop (Settled (Rejected Unprintable))],
            nextCall = 1, nextPromise = 0, calls = [(PLAY, 1)], log = [(Info, ''play'')],
            resolved = [], unhandled = []\<rparr>"
    "resume complete_handler (Call 0 PLAY Loop (Settled (Rejected Unprintable)))
        (Rejected Unprintable)
        \<lparr>isProcessing = True, eventsQueue = [(PAUSE, 2)], currentAnimationFrame = None,
            frames = [], nextFrame = 0,
            inflight = [Call 0 PLAY Loop (Settled (Rejected Unprintable))],
            nextCall = 1, nextPromise = 0, calls = [(PLAY, 1)], log = [(Info, ''play'')],
            resolved = [], unhandled = []\<rparr> = stalled"
    "isProcessing stalled" "frames stalled = []" "inflight stalled = []"
    "enqueueForProcessing complete_handler SEEK 3 stalled
       = stalled\<lparr>eventsQueue := [(PAUSE, 2), (SEEK, 3)]\<rparr>"
    by (simp_all add: eval_simps)
  from never rest show ?thesis by blast
qed



end
